theory Spec2Isabelle
  imports Complex_Main "HOL-Library.Sublist"
begin

section \<open>Numbers\<close>

text \<open>
  The program computes with JavaScript numbers. A number is modelled as a finite real or
  one of the three special values, so that division by zero, \<open>%\<close> by zero and
  coordinates that are not finite flow through the model as they do through the program.
  Finite results are taken in exact arithmetic: the rounding of the 64-bit format, overflow
  of a finite result to an infinity and the sign of a zero are not represented.
\<close>

datatype jsnum = Fin real | PInf | NInf | NaN

fun jneg :: "jsnum \<Rightarrow> jsnum" where
  "jneg (Fin a) = Fin (- a)"
| "jneg PInf = NInf"
| "jneg NInf = PInf"
| "jneg NaN = NaN"

fun jadd :: "jsnum \<Rightarrow> jsnum \<Rightarrow> jsnum" where
  "jadd (Fin a) (Fin c) = Fin (a + c)"
| "jadd NaN _ = NaN"
| "jadd _ NaN = NaN"
| "jadd PInf NInf = NaN"
| "jadd NInf PInf = NaN"
| "jadd PInf _ = PInf"
| "jadd _ PInf = PInf"
| "jadd NInf _ = NInf"
| "jadd _ NInf = NInf"

definition jsub :: "jsnum \<Rightarrow> jsnum \<Rightarrow> jsnum" where
  "jsub u v = jadd u (jneg v)"

fun jmul :: "jsnum \<Rightarrow> jsnum \<Rightarrow> jsnum" where
  "jmul (Fin a) (Fin c) = Fin (a * c)"
| "jmul NaN _ = NaN"
| "jmul _ NaN = NaN"
| "jmul (Fin a) v = (if a = 0 then NaN else if 0 < a then v else jneg v)"
| "jmul v (Fin c) = (if c = 0 then NaN else if 0 < c then v else jneg v)"
| "jmul PInf v = v"
| "jmul NInf v = jneg v"

fun jdiv :: "jsnum \<Rightarrow> jsnum \<Rightarrow> jsnum" where
  "jdiv (Fin a) (Fin c) =
     (if c = 0 then (if a = 0 then NaN else if 0 < a then PInf else NInf) else Fin (a / c))"
| "jdiv NaN _ = NaN"
| "jdiv _ NaN = NaN"
| "jdiv (Fin a) _ = Fin 0"
| "jdiv v (Fin c) = (if 0 \<le> c then v else jneg v)"
| "jdiv _ _ = NaN"

text \<open>The remainder operator \<open>%\<close>: the quotient is truncated towards zero, so the result
  has the sign of the dividend.\<close>

definition jsRem :: "real \<Rightarrow> real \<Rightarrow> real" where
  "jsRem a c = a - c * of_int (if 0 \<le> a / c then \<lfloor>a / c\<rfloor> else \<lceil>a / c\<rceil>)"

fun jmod :: "jsnum \<Rightarrow> jsnum \<Rightarrow> jsnum" where
  "jmod (Fin a) (Fin c) = (if c = 0 then NaN else Fin (jsRem a c))"
| "jmod (Fin a) PInf = Fin a"
| "jmod (Fin a) NInf = Fin a"
| "jmod _ _ = NaN"

fun Math_floor :: "jsnum \<Rightarrow> jsnum" where
  "Math_floor (Fin a) = Fin (of_int \<lfloor>a\<rfloor>)"
| "Math_floor v = v"

fun Math_max :: "jsnum \<Rightarrow> jsnum \<Rightarrow> jsnum" where
  "Math_max (Fin a) (Fin c) = Fin (max a c)"
| "Math_max NaN _ = NaN"
| "Math_max _ NaN = NaN"
| "Math_max PInf _ = PInf"
| "Math_max _ PInf = PInf"
| "Math_max NInf v = v"
| "Math_max v NInf = v"

text \<open>\<open>Math.round\<close> on a finite number rounds to the nearest integer, a tie upwards.\<close>

definition Math_round :: "real \<Rightarrow> int" where
  "Math_round v = \<lfloor>v + 1 / 2\<rfloor>"

fun Number_isFinite :: "jsnum \<Rightarrow> bool" where
  "Number_isFinite (Fin a) = True"
| "Number_isFinite v = False"

text \<open>Reading \<open>xs[i]\<close> with a number \<open>i\<close>: an element when \<open>i\<close> is an integer within
  the array, \<open>undefined\<close> (here \<open>None\<close>) otherwise.\<close>

fun jsIndex :: "'a list \<Rightarrow> jsnum \<Rightarrow> 'a option" where
  "jsIndex xs (Fin a) =
     (if of_int \<lfloor>a\<rfloor> = a \<and> 0 \<le> a \<and> nat \<lfloor>a\<rfloor> < length xs then Some (xs ! nat \<lfloor>a\<rfloor>) else None)"
| "jsIndex xs v = None"

text \<open>\<open>Date.now().toString()\<close> and the number in a template literal: decimal digits.\<close>

definition digit :: "nat \<Rightarrow> char" where
  "digit n = char_of (48 + n)"

function decimal :: "nat \<Rightarrow> string" where
  "decimal n = (if n < 10 then [digit n] else decimal (n div 10) @ [digit (n mod 10)])"
  by pat_completeness auto
termination
  by (relation "measure (\<lambda>n. n)") auto

declare decimal.simps [simp del]

definition toString :: "int \<Rightarrow> string" where
  "toString i = (if i < 0 then CHR ''-'' # decimal (nat (- i)) else decimal (nat i))"

section \<open>Colour model (settings panel)\<close>

record RGB =
  r :: int
  g :: int
  b :: int

text \<open>\<open>hslToRgb\<close>, as the settings panel defines it. Its callers pass finite hue,
  saturation and lightness, so the arguments are reals.\<close>

definition hslToRgb :: "real \<Rightarrow> real \<Rightarrow> real \<Rightarrow> RGB" where
  "hslToRgb h0 s0 l0 =
     (let h = h0 / 360;
          s = s0 / 100;
          l = l0 / 100;
          c = (1 - \<bar>2 * l - 1\<bar>) * s;
          x' = c * (1 - \<bar>jsRem (h * 6) 2 - 1\<bar>);
          m = l - c / 2;
          (r', g', b') =
            (if 0 \<le> h \<and> h < 1 / 6 then (c, x', 0)
             else if 1 / 6 \<le> h \<and> h < 2 / 6 then (x', c, 0)
             else if 2 / 6 \<le> h \<and> h < 3 / 6 then (0, c, x')
             else if 3 / 6 \<le> h \<and> h < 4 / 6 then (0, x', c)
             else if 4 / 6 \<le> h \<and> h < 5 / 6 then (x', 0, c)
             else if 5 / 6 \<le> h \<and> h < 1 then (c, 0, x')
             else (0, 0, 0))
      in \<lparr>r = Math_round ((r' + m) * 255),
          g = Math_round ((g' + m) * 255),
          b = Math_round ((b' + m) * 255)\<rparr>)"

section \<open>Data model (page)\<close>

text \<open>A colour string is either a string the colour picker supplied or the template
  literal \<open>hsl(h, s%, l%)\<close> of a pattern generator, kept by its three numbers.\<close>

datatype css_color = Css string | Hsl real real real

record DronePoint =
  x :: jsnum
  y :: jsnum
  z :: jsnum
  color :: css_color
  rgb :: RGB
  brightness :: real
  timestamp :: int
  speed :: "real option"
  transitionDuration :: "real option"

record DroneSequence =
  seq_id :: string
  name :: string
  points :: "DronePoint list"
  duration :: int

section \<open>Application state and its handlers (page)\<close>

text \<open>
  The state of the page component. The handlers are state transformers; a handler that
  shows a toast returns it with the new state. \<open>localStorage\<close> maps a key to the stored
  blob, which is represented by the collection it serialises.
\<close>

record Page =
  sequences :: "DroneSequence list"
  activeSequence :: "string option"
  previewSequence :: "DroneSequence option"
  currentDrawingColor :: string
  currentDrawingRgb :: RGB
  localStorage :: "string \<rightharpoonup> DroneSequence list"

datatype Toast =
    SequenceDeleted
  | NoPointsToSave
  | SequenceUpdated string nat
  | NewSequenceCreated string nat
  | CanvasCleared
  | NewSequenceStarted

text \<open>The toasts raised with \<open>variant: "destructive"\<close>.\<close>

fun destructive :: "Toast \<Rightarrow> bool" where
  "destructive NoPointsToSave = True"
| "destructive t = False"

text \<open>\<open>!activeSequence\<close>: \<open>null\<close> and the empty string are falsy.\<close>

definition falsy :: "string option \<Rightarrow> bool" where
  "falsy v = (v = None \<or> v = Some [])"

text \<open>The argument of \<open>updateSequence\<close> is a \<open>Partial<DroneSequence>\<close>: any subset of
  the fields; \<open>{ ...seq, ...updates }\<close> takes the fields that \<open>updates\<close> has from it.\<close>

record PartialDroneSequence =
  new_id :: "string option"
  new_name :: "string option"
  new_points :: "DronePoint list option"
  new_duration :: "int option"

definition spread :: "DroneSequence \<Rightarrow> PartialDroneSequence \<Rightarrow> DroneSequence" where
  "spread sq u =
     \<lparr>seq_id = (case new_id u of Some v \<Rightarrow> v | None \<Rightarrow> seq_id sq),
      name = (case new_name u of Some v \<Rightarrow> v | None \<Rightarrow> name sq),
      points = (case new_points u of Some v \<Rightarrow> v | None \<Rightarrow> points sq),
      duration = (case new_duration u of Some v \<Rightarrow> v | None \<Rightarrow> duration sq)\<rparr>"

definition whole :: "DroneSequence \<Rightarrow> PartialDroneSequence" where
  "whole sq = \<lparr>new_id = Some (seq_id sq), new_name = Some (name sq),
               new_points = Some (points sq), new_duration = Some (duration sq)\<rparr>"

text \<open>The effect with dependency \<open>[sequences]\<close>: it runs after every render in which the
  collection changed, and writes it under the one key unless it is empty.\<close>

definition saveEffect :: "Page \<Rightarrow> Page" where
  "saveEffect a =
     (if length (sequences a) > 0
      then a\<lparr>localStorage := (localStorage a)(''drone-sequences'' \<mapsto> sequences a)\<rparr>
      else a)"

definition addSequence :: "DroneSequence \<Rightarrow> Page \<Rightarrow> Page" where
  "addSequence sq a =
     a\<lparr>sequences := sequences a @ [sq],
       activeSequence := (if falsy (activeSequence a) then Some (seq_id sq) else activeSequence a),
       previewSequence := None\<rparr>"

definition updateSequence :: "string \<Rightarrow> PartialDroneSequence \<Rightarrow> Page \<Rightarrow> Page" where
  "updateSequence i updates a =
     a\<lparr>sequences := map (\<lambda>sq. if seq_id sq = i then spread sq updates else sq) (sequences a),
       previewSequence := None\<rparr>"

definition deleteSequence :: "string \<Rightarrow> Page \<Rightarrow> Toast \<times> Page" where
  "deleteSequence i a =
     (SequenceDeleted,
      a\<lparr>sequences := filter (\<lambda>sq. seq_id sq \<noteq> i) (sequences a),
        activeSequence :=
          (if activeSequence a = Some i
           then (let remainingSequences = filter (\<lambda>sq. seq_id sq \<noteq> i) (sequences a)
                 in if length remainingSequences > 0
                    then Some (seq_id (remainingSequences ! 0)) else None)
           else activeSequence a)\<rparr>)"

definition handlePreviewSequence :: "DroneSequence \<Rightarrow> Page \<Rightarrow> Page" where
  "handlePreviewSequence sq a = a\<lparr>previewSequence := Some sq\<rparr>"

definition clearPreview :: "Page \<Rightarrow> Page" where
  "clearPreview a = a\<lparr>previewSequence := None\<rparr>"

text \<open>\<open>activeSeq\<close>: the first sequence whose id is the active one.\<close>

definition activeSeq :: "Page \<Rightarrow> DroneSequence option" where
  "activeSeq a = find (\<lambda>sq. Some (seq_id sq) = activeSequence a) (sequences a)"

text \<open>The prop \<open>onSequenceUpdate\<close> that the page hands to the canvas.\<close>

definition onSequenceUpdate :: "PartialDroneSequence \<Rightarrow> Page \<Rightarrow> Page" where
  "onSequenceUpdate updates a =
     (case activeSequence a of
        None \<Rightarrow> a
      | Some i \<Rightarrow> if i = [] then a else updateSequence i updates a)"

section \<open>Effects of the page and the renders after a handler\<close>

text \<open>
  The page declares two effects that touch the collection, in this order: the effect with
  dependencies \<open>[toast, activeSequence]\<close>, which reads the stored blob and, when there is
  one, sets the collection to it and the active id to its first sequence if no id is
  active; and the save effect above. \<open>toast\<close> is the one function of the toast hook, so
  the first effect runs again exactly when the active id has changed. A stored blob always
  parses here, being represented by its collection; the listeners and the online flag that
  the effect also sets up are left out.
\<close>

definition loadEffect :: "Page \<Rightarrow> Page" where
  "loadEffect a =
     (case localStorage a ''drone-sequences'' of
        None \<Rightarrow> a
      | Some parsed \<Rightarrow>
          a\<lparr>sequences := parsed,
            activeSequence :=
              (if length parsed > 0 \<and> falsy (activeSequence a)
               then Some (seq_id (parsed ! 0)) else activeSequence a)\<rparr>)"

text \<open>
  A render of the page: its state, and which of the two dependencies changed since the
  render before. The active id is a string, compared by its content; the collection is an
  array, so it has changed whenever \<open>setSequences\<close> was called with a fresh one.
\<close>

record Render =
  page :: Page
  activeChanged :: bool
  sequencesChanged :: bool

text \<open>
  One commit: the effects whose dependency changed run in the order of their declaration,
  both on the state of this render. The load effect reads the store before the save effect
  writes it, the save effect writes the collection of this render, and the state updates
  that the load effect requested make the next render.
\<close>

definition commit :: "Render \<Rightarrow> Render" where
  "commit rd =
     (let a = page rd;
          loaded = (if activeChanged rd then loadEffect a else a);
          saved = (if sequencesChanged rd then saveEffect a else a)
      in \<lparr>page = loaded\<lparr>localStorage := localStorage saved\<rparr>,
          activeChanged = (activeSequence loaded \<noteq> activeSequence a),
          sequencesChanged = (activeChanged rd \<and> localStorage a ''drone-sequences'' \<noteq> None)\<rparr>)"

text \<open>The measure under which the renders come to rest: an active id only moves from none
  to the empty string to a proper id.\<close>

definition activeRank :: "string option \<Rightarrow> nat" where
  "activeRank v = (if v = None then 2 else if v = Some [] then 1 else 0)"

definition pending :: "Render \<Rightarrow> nat" where
  "pending rd =
     4 * activeRank (activeSequence (page rd)) + (if activeChanged rd then 2 else 0)
       + (if sequencesChanged rd then 1 else 0)"

text \<open>The page re-renders until no dependency has changed; \<open>settle\<close> is the state it
  comes to rest in.\<close>

function settle :: "Render \<Rightarrow> Page" where
  "settle rd = (if activeChanged rd \<or> sequencesChanged rd then settle (commit rd) else page rd)"
  by pat_completeness auto
termination
proof (relation "measure pending")
  show "wf (measure pending)" by simp
next
  fix rd :: Render
  assume run: "activeChanged rd \<or> sequencesChanged rd"
  have rank: "activeRank (activeSequence (loadEffect a)) < activeRank (activeSequence a)"
    if "activeSequence (loadEffect a) \<noteq> activeSequence a" for a
    using that
    by (auto simp add: loadEffect_def activeRank_def falsy_def split: option.splits if_splits)
  have "pending (commit rd) < pending rd"
  proof (cases "activeChanged rd")
    case False
    with run show ?thesis
      by (simp add: commit_def pending_def Let_def)
  next
    case True
    show ?thesis
    proof (cases "activeSequence (loadEffect (page rd)) = activeSequence (page rd)")
      case same: True
      with True show ?thesis
        by (simp add: commit_def pending_def Let_def)
    next
      case False
      then have "activeRank (activeSequence (loadEffect (page rd)))
                   < activeRank (activeSequence (page rd))"
        by (rule rank)
      with True False show ?thesis
        by (simp add: commit_def pending_def Let_def)
    qed
  qed
  then show "(commit rd, rd) \<in> measure pending" by simp
qed

declare settle.simps [simp del]

text \<open>The render that follows a handler which called \<open>setSequences\<close>, as \<open>addSequence\<close>,
  \<open>updateSequence\<close> and \<open>deleteSequence\<close> do: \<open>old\<close> is the state before the handler,
  \<open>new\<close> the state it set.\<close>

definition rendered :: "Page \<Rightarrow> Page \<Rightarrow> Render" where
  "rendered old new =
     \<lparr>page = new, activeChanged = (activeSequence new \<noteq> activeSequence old),
      sequencesChanged = True\<rparr>"

section \<open>Drawing canvas\<close>

text \<open>The state of the canvas component: the draft.\<close>

record Canvas =
  currentAltitude :: real
  sequenceName :: string
  showWaypoints :: bool
  unsavedPoints :: "DronePoint list"
  hasUnsavedChanges :: bool

definition canvasWidth :: real where
  "canvasWidth = 400"

definition canvasHeight :: real where
  "canvasHeight = 300"

text \<open>What a click carries: the pointer position, the bounding rectangle of the displayed
  canvas and the size of its bitmap.\<close>

record ClickEvent =
  clientX :: real
  clientY :: real
  rect_left :: real
  rect_top :: real
  rect_width :: real
  rect_height :: real
  canvas_width :: real
  canvas_height :: real

text \<open>The canvas coordinates \<open>(x, y)\<close> that \<open>handleCanvasClick\<close> computes from a click.\<close>

definition clickXY :: "ClickEvent \<Rightarrow> jsnum \<times> jsnum" where
  "clickXY e =
     (let canvasActualWidth = Fin (canvas_width e);
          canvasActualHeight = Fin (canvas_height e);
          canvasDisplayWidth = Fin (rect_width e);
          canvasDisplayHeight = Fin (rect_height e);
          scaleX = jdiv canvasActualWidth canvasDisplayWidth;
          scaleY = jdiv canvasActualHeight canvasDisplayHeight;
          rawX = Fin (clientX e - rect_left e);
          rawY = Fin (clientY e - rect_top e)
      in (jmul rawX scaleX, jmul rawY scaleY))"

text \<open>The waypoint of a click at canvas coordinates \<open>(cx, cy)\<close>; \<open>now\<close> is \<open>Date.now()\<close>.\<close>

definition newPoint :: "bool \<Rightarrow> jsnum \<times> jsnum \<Rightarrow> real \<Rightarrow> string \<Rightarrow> RGB \<Rightarrow> int \<Rightarrow> DronePoint" where
  "newPoint isFrontView xy altitude currentColor currentRgb now =
     \<lparr>x = fst xy,
      y = (if isFrontView then Fin (canvasHeight / 2) else snd xy),
      z = (if isFrontView
           then Math_max (Fin 0) (jdiv (jsub (Fin canvasHeight) (snd xy)) (Fin 3))
           else Fin altitude),
      color = Css currentColor,
      rgb = currentRgb,
      brightness = 8 / 10,
      timestamp = now,
      speed = Some 5,
      transitionDuration = Some 500\<rparr>"

definition handleCanvasClick ::
    "ClickEvent \<Rightarrow> bool \<Rightarrow> int \<Rightarrow> Page \<times> Canvas \<Rightarrow> Page \<times> Canvas" where
  "handleCanvasClick e isFrontView now st =
     (case st of (a, c) \<Rightarrow>
        (if previewSequence a \<noteq> None then clearPreview a else a,
         c\<lparr>unsavedPoints :=
              unsavedPoints c @
                [newPoint isFrontView (clickXY e) (currentAltitude c)
                   (currentDrawingColor a) (currentDrawingRgb a) now],
           hasUnsavedChanges := True\<rparr>))"

text \<open>The effect with dependency \<open>[sequence]\<close>, the active sequence handed down by the page.\<close>

definition sequenceEffect :: "Page \<times> Canvas \<Rightarrow> Page \<times> Canvas" where
  "sequenceEffect st =
     (case st of (a, c) \<Rightarrow>
        (case activeSeq a of
           Some sq \<Rightarrow>
             (a, c\<lparr>unsavedPoints := points sq, sequenceName := name sq,
                    hasUnsavedChanges := False\<rparr>)
         | None \<Rightarrow> (a, c\<lparr>unsavedPoints := [], hasUnsavedChanges := False\<rparr>)))"

text \<open>The effect with dependency \<open>[previewSequence]\<close>: it runs after every render in which
  the preview changed, and does nothing when there is none.\<close>

definition previewEffect :: "Page \<times> Canvas \<Rightarrow> Page \<times> Canvas" where
  "previewEffect st =
     (case st of (a, c) \<Rightarrow>
        (case previewSequence a of
           Some pv \<Rightarrow>
             (a, c\<lparr>unsavedPoints := points pv, sequenceName := name pv,
                    hasUnsavedChanges := True\<rparr>)
         | None \<Rightarrow> (a, c)))"

definition clearCanvas :: "Page \<times> Canvas \<Rightarrow> Toast \<times> Page \<times> Canvas" where
  "clearCanvas st =
     (case st of (a, c) \<Rightarrow>
        (CanvasCleared, clearPreview a, c\<lparr>unsavedPoints := [], hasUnsavedChanges := False\<rparr>))"

text \<open>The sequence object that \<open>saveSequence\<close> builds from the draft; \<open>now\<close> is
  \<open>Date.now()\<close>. \<open>Math.max\<close> over the timestamps is taken only of a draft with points.\<close>

definition newSequence :: "DroneSequence option \<Rightarrow> string \<Rightarrow> DronePoint list \<Rightarrow> int \<Rightarrow> DroneSequence" where
  "newSequence sequence sequenceName' unsavedPoints' now =
     \<lparr>seq_id = (case sequence of
                  Some sq \<Rightarrow> if seq_id sq \<noteq> [] then seq_id sq else toString now
                | None \<Rightarrow> toString now),
      name = sequenceName',
      points = unsavedPoints',
      duration = (case map timestamp unsavedPoints' of
                    [] \<Rightarrow> 0
                  | t # ts \<Rightarrow> fold max ts t + 1000)\<rparr>"

definition saveSequence :: "int \<Rightarrow> Page \<times> Canvas \<Rightarrow> Toast \<times> Page \<times> Canvas" where
  "saveSequence now st =
     (case st of (a, c) \<Rightarrow>
        if length (unsavedPoints c) = 0 then (NoPointsToSave, a, c)
        else
          (let sq = newSequence (activeSeq a) (sequenceName c) (unsavedPoints c) now
           in case activeSeq a of
                Some _ \<Rightarrow>
                  (SequenceUpdated (sequenceName c) (length (unsavedPoints c)),
                   clearPreview (onSequenceUpdate (whole sq) a),
                   c\<lparr>hasUnsavedChanges := False\<rparr>)
              | None \<Rightarrow>
                  (NewSequenceCreated (sequenceName c) (length (unsavedPoints c)),
                   clearPreview (addSequence sq a),
                   c\<lparr>hasUnsavedChanges := False\<rparr>)))"

definition createNewSequence :: "Page \<times> Canvas \<Rightarrow> Toast \<times> Page \<times> Canvas" where
  "createNewSequence st =
     (case st of (a, c) \<Rightarrow>
        (NewSequenceStarted, clearPreview a,
         c\<lparr>unsavedPoints := [], sequenceName := ''New Sequence'', hasUnsavedChanges := False\<rparr>))"

definition handleSequenceNameChange :: "string \<Rightarrow> Page \<times> Canvas \<Rightarrow> Page \<times> Canvas" where
  "handleSequenceNameChange nm st =
     (case st of (a, c) \<Rightarrow>
        (a, (case activeSeq a of
               Some sq \<Rightarrow>
                 if nm \<noteq> name sq then c\<lparr>sequenceName := nm, hasUnsavedChanges := True\<rparr>
                 else c\<lparr>sequenceName := nm\<rparr>
             | None \<Rightarrow> c\<lparr>sequenceName := nm\<rparr>)))"

text \<open>Where \<open>drawWaypoints\<close> puts a waypoint on a canvas, and the vertices of the path it
  strokes: none when waypoints are hidden or there are no points.\<close>

definition waypointXY :: "bool \<Rightarrow> DronePoint \<Rightarrow> jsnum \<times> jsnum" where
  "waypointXY isFrontView point =
     (x point, if isFrontView then jsub (Fin canvasHeight) (jmul (z point) (Fin 3)) else y point)"

definition drawWaypoints :: "bool \<Rightarrow> DronePoint list \<Rightarrow> bool \<Rightarrow> (jsnum \<times> jsnum) list" where
  "drawWaypoints showWaypoints' pts isFrontView =
     (if \<not> showWaypoints' \<or> length pts = 0 then [] else map (waypointXY isFrontView) pts)"

section \<open>Pattern generators (settings panel)\<close>

record FlightSettings =
  maxAltitude :: real
  maxSpeed :: real
  safetyRadius :: real
  smoothPath :: bool
  autoOptimize :: bool
  batteryMonitoring :: bool

record LedSettings =
  led_brightness :: real
  transitionSpeed :: real
  strobeMode :: bool

definition CANVAS_CENTER_X :: real where
  "CANVAS_CENTER_X = 200"

definition CANVAS_CENTER_Y :: real where
  "CANVAS_CENTER_Y = 150"

text \<open>
  Each generator builds its points in a counting loop and hands the sequence to the page as
  a preview. \<open>now\<close> is \<open>Date.now()\<close> and \<open>clock\<close> the locale time string of the name.
\<close>

definition generateCirclePattern ::
    "FlightSettings \<Rightarrow> LedSettings \<Rightarrow> int \<Rightarrow> string \<Rightarrow> DroneSequence" where
  "generateCirclePattern flightSettings ledSettings now clock =
     (let radius = 60;
          numPoints = 12 :: nat;
          altitude = 15;
          pts = map (\<lambda>i.
                  let angle = (real i / real numPoints) * 2 * pi;
                      hue = (real i / real numPoints) * 360
                  in \<lparr>x = Fin (CANVAS_CENTER_X + cos angle * radius),
                      y = Fin (CANVAS_CENTER_Y + sin angle * radius),
                      z = Fin altitude,
                      color = Hsl hue 70 50,
                      rgb = hslToRgb hue 70 50,
                      brightness = led_brightness ledSettings / 100,
                      timestamp = int i * 1000,
                      speed = Some (maxSpeed flightSettings),
                      transitionDuration = Some (transitionSpeed ledSettings)\<rparr>)
                [0 ..< numPoints]
      in \<lparr>seq_id = ''circle-preview-'' @ toString now,
          name = ''Circle Pattern '' @ clock,
          points = pts,
          duration = int (length pts) * 1000\<rparr>)"

definition generateFigure8Pattern ::
    "FlightSettings \<Rightarrow> LedSettings \<Rightarrow> int \<Rightarrow> string \<Rightarrow> DroneSequence" where
  "generateFigure8Pattern flightSettings ledSettings now clock =
     (let width = 70;
          height = 50;
          numPoints = 20 :: nat;
          altitude = 18;
          pts = map (\<lambda>i.
                  let t = (real i / real numPoints) * 4 * pi;
                      progress = real i / real numPoints;
                      hue = jsRem (progress * 720) 360
                  in \<lparr>x = Fin (CANVAS_CENTER_X + sin t * width),
                      y = Fin (CANVAS_CENTER_Y + sin (t * 2) * height),
                      z = Fin (altitude + sin t * 3),
                      color = Hsl hue 80 60,
                      rgb = hslToRgb hue 80 60,
                      brightness = led_brightness ledSettings / 100,
                      timestamp = int i * 800,
                      speed = Some (maxSpeed flightSettings),
                      transitionDuration = Some (transitionSpeed ledSettings)\<rparr>)
                [0 ..< numPoints]
      in \<lparr>seq_id = ''figure8-preview-'' @ toString now,
          name = ''Figure-8 Pattern '' @ clock,
          points = pts,
          duration = int (length pts) * 800\<rparr>)"

definition generateSpiralPattern ::
    "FlightSettings \<Rightarrow> LedSettings \<Rightarrow> int \<Rightarrow> string \<Rightarrow> DroneSequence" where
  "generateSpiralPattern flightSettings ledSettings now clock =
     (let maxRadius = 80;
          numPoints = 24 :: nat;
          maxAltitude' = 25;
          pts = map (\<lambda>i.
                  let progress = real i / real numPoints;
                      angle = progress * 6 * pi;
                      radius = progress * maxRadius;
                      hue = 240 - progress * 240
                  in \<lparr>x = Fin (CANVAS_CENTER_X + cos angle * radius),
                      y = Fin (CANVAS_CENTER_Y + sin angle * radius),
                      z = Fin (5 + progress * maxAltitude'),
                      color = Hsl hue 90 55,
                      rgb = hslToRgb hue 90 55,
                      brightness = (led_brightness ledSettings / 100) * (7 / 10 + progress * (3 / 10)),
                      timestamp = int i * 600,
                      speed = Some (maxSpeed flightSettings * (1 / 2 + progress * (1 / 2))),
                      transitionDuration = Some (transitionSpeed ledSettings)\<rparr>)
                [0 ..< numPoints]
      in \<lparr>seq_id = ''spiral-preview-'' @ toString now,
          name = ''Spiral Pattern '' @ clock,
          points = pts,
          duration = int (length pts) * 600\<rparr>)"

text \<open>The three formations: diamond, line and V, four positions each.\<close>

definition formations :: "(real \<times> real) list list" where
  "formations =
     [[(CANVAS_CENTER_X, CANVAS_CENTER_Y - 30),
       (CANVAS_CENTER_X + 30, CANVAS_CENTER_Y),
       (CANVAS_CENTER_X, CANVAS_CENTER_Y + 30),
       (CANVAS_CENTER_X - 30, CANVAS_CENTER_Y)],
      [(CANVAS_CENTER_X - 45, CANVAS_CENTER_Y),
       (CANVAS_CENTER_X - 15, CANVAS_CENTER_Y),
       (CANVAS_CENTER_X + 15, CANVAS_CENTER_Y),
       (CANVAS_CENTER_X + 45, CANVAS_CENTER_Y)],
      [(CANVAS_CENTER_X, CANVAS_CENTER_Y - 15),
       (CANVAS_CENTER_X - 20, CANVAS_CENTER_Y),
       (CANVAS_CENTER_X + 20, CANVAS_CENTER_Y),
       (CANVAS_CENTER_X - 35, CANVAS_CENTER_Y + 15)]]"

definition generateFormationPattern ::
    "FlightSettings \<Rightarrow> LedSettings \<Rightarrow> int \<Rightarrow> string \<Rightarrow> DroneSequence" where
  "generateFormationPattern flightSettings ledSettings now clock =
     (let pts = concat (map (\<lambda>(formationIndex, formation).
                  map (\<lambda>(posIndex, pos).
                    let timeOffset = int formationIndex * 4000 + int posIndex * 200;
                        hue = jsRem (real formationIndex * 120 + real posIndex * 60) 360
                    in \<lparr>x = Fin (fst pos),
                        y = Fin (snd pos),
                        z = Fin (20 + real formationIndex * 8),
                        color = Hsl hue 75 50,
                        rgb = hslToRgb hue 75 50,
                        brightness = led_brightness ledSettings / 100,
                        timestamp = timeOffset,
                        speed = Some (maxSpeed flightSettings),
                        transitionDuration = Some (transitionSpeed ledSettings)\<rparr>)
                  (enumerate 0 formation))
                (enumerate 0 formations))
      in \<lparr>seq_id = ''formation-preview-'' @ toString now,
          name = ''Formation Flying '' @ clock,
          points = pts,
          duration = 14000\<rparr>)"

section \<open>3D preview\<close>

type_synonym vec3 = "jsnum \<times> jsnum \<times> jsnum"

text \<open>\<open>isFinitePoint\<close>: all three coordinates are finite numbers.\<close>

definition isFinitePoint :: "vec3 \<Rightarrow> bool" where
  "isFinitePoint p =
     (case p of (p0, p1, p2) \<Rightarrow> Number_isFinite p0 \<and> Number_isFinite p1 \<and> Number_isFinite p2)"

text \<open>What \<open>FlightPath\<close> renders: nothing (\<open>None\<close>), or a line through the display
  points and a marker at each of them, coloured by the sequence point of the same index.\<close>

record PathView =
  line_points :: "vec3 list"
  line_color :: string
  markers :: "(vec3 \<times> css_color) list"

definition rawPt :: "DronePoint \<Rightarrow> vec3" where
  "rawPt p =
     (jdiv (jsub (x p) (Fin 200)) (Fin 20), jdiv (z p) (Fin 10), jdiv (jsub (y p) (Fin 150)) (Fin 20))"

definition FlightPath :: "DroneSequence \<Rightarrow> bool \<Rightarrow> PathView option" where
  "FlightPath sq isActive =
     (let rawPts = map rawPt (points sq);
          pts = filter isFinitePoint rawPts
      in if length pts < 2 then None
         else Some \<lparr>line_points = pts,
                    line_color = (if isActive then ''#3b82f6'' else ''#9ca3af''),
                    markers = map (\<lambda>(idx, pt). (pt, color (points sq ! idx))) (enumerate 0 pts)\<rparr>)"

text \<open>The sequence the scene shows: the one selected in the preview, else the active one.\<close>

definition displaySequence ::
    "DroneSequence list \<Rightarrow> string option \<Rightarrow> string option \<Rightarrow> DroneSequence option" where
  "displaySequence seqs selectedSequence active =
     (if \<not> falsy selectedSequence
      then find (\<lambda>sq. Some (seq_id sq) = selectedSequence) seqs
      else find (\<lambda>sq. Some (seq_id sq) = active) seqs)"

text \<open>\<open>THREE.MathUtils.lerp(x, y, t)\<close> of the three.js library is \<open>(1 - t) * x + t * y\<close>.\<close>

definition lerp :: "jsnum \<Rightarrow> jsnum \<Rightarrow> jsnum \<Rightarrow> jsnum" where
  "lerp u v t = jadd (jmul (jsub (Fin 1) t) u) (jmul t v)"

datatype js_error = TypeError

text \<open>
  \<open>getCurrentPosition\<close> of the scene, for the displayed sequence and the current time.
  \<open>a || b\<close> on array elements takes \<open>b\<close> when \<open>a\<close> is \<open>undefined\<close>; reading a coordinate
  of \<open>undefined\<close> throws.
\<close>

definition getCurrentPosition :: "DroneSequence option \<Rightarrow> jsnum \<Rightarrow> js_error + vec3" where
  "getCurrentPosition ds currentTime =
     (case ds of
        None \<Rightarrow> Inr (Fin 0, Fin 3, Fin 0)
      | Some sq \<Rightarrow>
          if length (points sq) = 0 then Inr (Fin 0, Fin 3, Fin 0)
          else
            (let totalDuration = Fin (of_int (duration sq));
                 progress = jdiv (jmod currentTime totalDuration) totalDuration;
                 totalPoints = length (points sq)
             in if totalPoints = 1
                then (let point = points sq ! 0
                      in Inr (jdiv (jsub (x point) (Fin 200)) (Fin 20),
                              jadd (jdiv (z point) (Fin 10)) (Fin 2),
                              jdiv (jsub (y point) (Fin 150)) (Fin 20)))
                else
                  (let segmentProgress = jmul progress (Fin (real totalPoints - 1));
                       segmentIndex = Math_floor segmentProgress;
                       localProgress = jsub segmentProgress segmentIndex;
                       currentPoint = (case jsIndex (points sq) segmentIndex of
                                         Some p \<Rightarrow> p | None \<Rightarrow> points sq ! 0);
                       nextPoint = (case jsIndex (points sq) (jadd segmentIndex (Fin 1)) of
                                      Some p \<Rightarrow> Some p
                                    | None \<Rightarrow> jsIndex (points sq) segmentIndex)
                   in case nextPoint of
                        None \<Rightarrow> Inl TypeError
                      | Some np \<Rightarrow>
                          Inr (lerp (jdiv (jsub (x currentPoint) (Fin 200)) (Fin 20))
                                    (jdiv (jsub (x np) (Fin 200)) (Fin 20)) localProgress,
                               lerp (jadd (jdiv (z currentPoint) (Fin 10)) (Fin 2))
                                    (jadd (jdiv (z np) (Fin 10)) (Fin 2)) localProgress,
                               lerp (jdiv (jsub (y currentPoint) (Fin 150)) (Fin 20))
                                    (jdiv (jsub (y np) (Fin 150)) (Fin 20)) localProgress))))"

definition getCurrentColor :: "DroneSequence option \<Rightarrow> jsnum \<Rightarrow> css_color" where
  "getCurrentColor ds currentTime =
     (case ds of
        None \<Rightarrow> Css ''#ff0000''
      | Some sq \<Rightarrow>
          if length (points sq) = 0 then Css ''#ff0000''
          else
            (let totalDuration = Fin (of_int (duration sq));
                 progress = jdiv (jmod currentTime totalDuration) totalDuration;
                 pointIndex = Math_floor (jmul progress (Fin (real (length (points sq)))));
                 point = (case jsIndex (points sq) pointIndex of
                            Some p \<Rightarrow> p | None \<Rightarrow> points sq ! 0)
             in color point))"

section \<open>Notions used by the properties\<close>

text \<open>A waypoint whose three coordinates are finite numbers.\<close>

definition finiteCoords :: "DronePoint \<Rightarrow> bool" where
  "finiteCoords p = (Number_isFinite (x p) \<and> Number_isFinite (y p) \<and> Number_isFinite (z p))"

text \<open>The world position at which \<open>getCurrentPosition\<close> places the drone for a waypoint:
  the display point of the path with the height raised by 2.\<close>

definition dronePos :: "DronePoint \<Rightarrow> vec3" where
  "dronePos p =
     (jdiv (jsub (x p) (Fin 200)) (Fin 20), jadd (jdiv (z p) (Fin 10)) (Fin 2),
      jdiv (jsub (y p) (Fin 150)) (Fin 20))"

definition midpoint :: "vec3 \<Rightarrow> vec3 \<Rightarrow> vec3" where
  "midpoint u v =
     (case u of (u0, u1, u2) \<Rightarrow> case v of (v0, v1, v2) \<Rightarrow>
        (jdiv (jadd u0 v0) (Fin 2), jdiv (jadd u1 v1) (Fin 2), jdiv (jadd u2 v2) (Fin 2)))"

text \<open>The duration invariant of a sequence: the duration is at least the largest timestamp
  of its points, and 0 when it has no points.\<close>

definition durationInvariant :: "DroneSequence \<Rightarrow> bool" where
  "durationInvariant sq =
     ((points sq \<noteq> [] \<longrightarrow> Max (timestamp ` set (points sq)) \<le> duration sq) \<and>
      (points sq = [] \<longrightarrow> duration sq = 0))"

section \<open>Example states\<close>

text \<open>Concrete sequences, states and a click, at which the theorems below are evaluated.\<close>

definition seqA :: DroneSequence where
  "seqA = \<lparr>seq_id = ''a'', name = ''A'', points = [], duration = 0\<rparr>"

definition seqB :: DroneSequence where
  "seqB = \<lparr>seq_id = ''b'', name = ''B'', points = [], duration = 0\<rparr>"

definition seqC :: DroneSequence where
  "seqC = \<lparr>seq_id = ''c'', name = ''C'', points = [], duration = 0\<rparr>"

definition pageABC :: Page where
  "pageABC = \<lparr>sequences = [seqA, seqB, seqC], activeSequence = Some ''b'',
              previewSequence = None, currentDrawingColor = ''#ff0000'',
              currentDrawingRgb = \<lparr>r = 255, g = 0, b = 0\<rparr>,
              localStorage = [''drone-sequences'' \<mapsto> [seqA, seqB, seqC]]\<rparr>"

definition pageA :: Page where
  "pageA = \<lparr>sequences = [seqA], activeSequence = Some ''a'',
            previewSequence = None, currentDrawingColor = ''#ff0000'',
            currentDrawingRgb = \<lparr>r = 255, g = 0, b = 0\<rparr>,
            localStorage = [''drone-sequences'' \<mapsto> [seqA]]\<rparr>"

definition page0 :: Page where
  "page0 = \<lparr>sequences = [], activeSequence = None, previewSequence = None,
            currentDrawingColor = ''#ff0000'', currentDrawingRgb = \<lparr>r = 255, g = 0, b = 0\<rparr>,
            localStorage = Map.empty\<rparr>"

definition canvas0 :: Canvas where
  "canvas0 = \<lparr>currentAltitude = 20, sequenceName = ''New Sequence'', showWaypoints = True,
              unsavedPoints = [], hasUnsavedChanges = False\<rparr>"

definition pointP :: DronePoint where
  "pointP = \<lparr>x = Fin 260, y = Fin 150, z = Fin 15, color = Hsl 0 70 50,
             rgb = \<lparr>r = 217, g = 38, b = 38\<rparr>, brightness = 8 / 10, timestamp = 0,
             speed = Some 10, transitionDuration = Some 500\<rparr>"

definition previewP :: DroneSequence where
  "previewP = \<lparr>seq_id = ''circle-preview-1'', name = ''Circle Pattern'', points = [pointP],
               duration = 1000\<rparr>"

definition click1 :: ClickEvent where
  "click1 = \<lparr>clientX = 110, clientY = 70, rect_left = 10, rect_top = 20,
             rect_width = 400, rect_height = 300, canvas_width = 400, canvas_height = 300\<rparr>"

definition wp :: "real \<Rightarrow> real \<Rightarrow> real \<Rightarrow> int \<Rightarrow> DronePoint" where
  "wp a c d t = \<lparr>x = Fin a, y = Fin c, z = Fin d, color = Css ''#ff0000'',
                 rgb = \<lparr>r = 255, g = 0, b = 0\<rparr>, brightness = 8 / 10, timestamp = t,
                 speed = Some 5, transitionDuration = Some 500\<rparr>"

definition seq3 :: DroneSequence where
  "seq3 = \<lparr>seq_id = ''s'', name = ''S'',
           points = [wp 0 150 10 0, wp 200 150 10 1000, wp 400 150 10 2000], duration = 3000\<rparr>"

definition seqNaN :: DroneSequence where
  "seqNaN = \<lparr>seq_id = ''n'', name = ''N'',
             points = [wp 0 150 10 0, (wp 200 150 10 1000)\<lparr>x := NaN\<rparr>, wp 400 150 10 2000,
                       (wp 100 150 10 3000)\<lparr>z := PInf\<rparr>],
             duration = 4000\<rparr>"

definition flight0 :: FlightSettings where
  "flight0 = \<lparr>maxAltitude = 50, maxSpeed = 10, safetyRadius = 50, smoothPath = True,
              autoOptimize = False, batteryMonitoring = True\<rparr>"

definition led0 :: LedSettings where
  "led0 = \<lparr>led_brightness = 80, transitionSpeed = 500, strobeMode = False\<rparr>"

section \<open>Properties of the colour model\<close>

text \<open>
  Claim C8. At full saturation and half lightness, \<open>hslToRgb\<close> maps the hues 0, 60, 120,
  180, 240 and 300 to red, yellow, green, cyan, blue and magenta: each channel is exactly
  0 or 255.
\<close>

theorem hslToRgb_canonical:
  "hslToRgb 0 100 50 = \<lparr>r = 255, g = 0, b = 0\<rparr> \<and>
   hslToRgb 60 100 50 = \<lparr>r = 255, g = 255, b = 0\<rparr> \<and>
   hslToRgb 120 100 50 = \<lparr>r = 0, g = 255, b = 0\<rparr> \<and>
   hslToRgb 180 100 50 = \<lparr>r = 0, g = 255, b = 255\<rparr> \<and>
   hslToRgb 240 100 50 = \<lparr>r = 0, g = 0, b = 255\<rparr> \<and>
   hslToRgb 300 100 50 = \<lparr>r = 255, g = 0, b = 255\<rparr>"
  by (simp add: hslToRgb_def jsRem_def Math_round_def Let_def)

section \<open>Deleting a sequence\<close>

text \<open>
  The handler's own state update. When the deleted sequence is the active one,
  \<open>deleteSequence\<close> sets the active id to the id of the first sequence that remains, or
  to none when nothing remains, and never to the deleted id.
\<close>

lemma deleteSequence_handler_repoints:
  assumes "activeSequence a = Some i"
  shows "activeSequence (snd (deleteSequence i a)) =
           (case sequences (snd (deleteSequence i a)) of [] \<Rightarrow> None | sq # _ \<Rightarrow> Some (seq_id sq)) \<and>
         activeSequence (snd (deleteSequence i a)) \<noteq> Some i \<and>
         (\<forall>j. activeSequence (snd (deleteSequence i a)) = Some j \<longrightarrow>
              j \<in> seq_id ` set (sequences (snd (deleteSequence i a))))"
proof -
  let ?rem = "filter (\<lambda>sq. seq_id sq \<noteq> i) (sequences a)"
  show ?thesis
  proof (cases ?rem)
    case Nil
    with assms show ?thesis by (simp add: deleteSequence_def)
  next
    case (Cons sq rest)
    then have "sq \<in> set ?rem" by simp
    then have "seq_id sq \<noteq> i" by simp
    with Cons assms show ?thesis by (auto simp add: deleteSequence_def)
  qed
qed

text \<open>
  The handler's own state update keeps exactly the sequences with another id, each as it
  was, as often as it occurred and in the same order; it leaves the active id when that is
  not the deleted one, and the preview and the store.
\<close>

lemma deleteSequence_handler_frame:
  "sequences (snd (deleteSequence i a)) = filter (\<lambda>sq. seq_id sq \<noteq> i) (sequences a) \<and>
   subseq (sequences (snd (deleteSequence i a))) (sequences a) \<and>
   (\<forall>sq \<in> set (sequences (snd (deleteSequence i a))). seq_id sq \<noteq> i) \<and>
   (\<forall>sq \<in> set (sequences a). seq_id sq \<noteq> i \<longrightarrow>
       count_list (sequences (snd (deleteSequence i a))) sq = count_list (sequences a) sq) \<and>
   (activeSequence a \<noteq> Some i \<longrightarrow> activeSequence (snd (deleteSequence i a)) = activeSequence a) \<and>
   previewSequence (snd (deleteSequence i a)) = previewSequence a \<and>
   localStorage (snd (deleteSequence i a)) = localStorage a"
proof -
  have cnt: "seq_id sq \<noteq> i \<Longrightarrow>
      count_list (filter (\<lambda>q. seq_id q \<noteq> i) xs) sq = count_list xs sq" for sq xs
    by (induction xs) auto
  show ?thesis
    by (simp add: deleteSequence_def cnt)
qed

lemma settle_done:
  "\<not> activeChanged rd \<Longrightarrow> \<not> sequencesChanged rd \<Longrightarrow> settle rd = page rd"
  by (simp add: settle.simps [of rd])

lemma commit_save_only:
  assumes "\<not> activeChanged rd" and "sequencesChanged rd"
  shows "commit rd =
           \<lparr>page = saveEffect (page rd), activeChanged = False, sequencesChanged = False\<rparr>"
  using assms by (simp add: commit_def Let_def saveEffect_def)

lemma settle_save_only:
  assumes "\<not> activeChanged rd" and "sequencesChanged rd"
  shows "settle rd = saveEffect (page rd)"
proof -
  have "settle rd = settle (commit rd)"
    using assms by (simp add: settle.simps [of rd])
  also have "\<dots> = saveEffect (page rd)"
    by (simp add: commit_save_only [OF assms] settle_done)
  finally show ?thesis .
qed

text \<open>
  Deleting a sequence that is not the active one comes to rest after the save effect alone:
  the page settles in the state the handler set, with the collection written to the store
  unless it is empty.
\<close>

lemma delete_inactive_settles:
  assumes "activeSequence a \<noteq> Some i"
  shows "settle (rendered a (snd (deleteSequence i a))) = saveEffect (snd (deleteSequence i a))"
proof -
  have "\<not> activeChanged (rendered a (snd (deleteSequence i a)))"
    using assms by (simp add: rendered_def deleteSequence_def)
  moreover have "sequencesChanged (rendered a (snd (deleteSequence i a)))"
    by (simp add: rendered_def)
  ultimately show ?thesis
    using settle_save_only [of "rendered a (snd (deleteSequence i a))"]
    by (simp add: rendered_def)
qed

text \<open>
  Claim C6 says that deleting the active sequence points the active id at the first
  remaining sequence, or at none when nothing remains, and never leaves it at the deleted
  id. The program breaks this when the only sequence is deleted: the handler empties the
  collection and clears the active id, the change of the active id runs the load effect
  again, the store still holds the deleted sequence because the save effect skips an empty
  collection, and the page settles with the sequence restored and the active id equal to
  the deleted id.
\<close>

theorem delete_last_active_restored:
  "activeSequence pageA = Some ''a'' \<and>
   sequences (snd (deleteSequence ''a'' pageA)) = [] \<and>
   activeSequence (snd (deleteSequence ''a'' pageA)) = None \<and>
   sequences (settle (rendered pageA (snd (deleteSequence ''a'' pageA)))) = [seqA] \<and>
   activeSequence (settle (rendered pageA (snd (deleteSequence ''a'' pageA)))) = Some ''a''"
  by (simp add: settle.simps commit_def rendered_def loadEffect_def saveEffect_def
      deleteSequence_def pageA_def seqA_def falsy_def Let_def)

text \<open>
  Claim C10 says that \<open>deleteSequence\<close> removes exactly the sequences with the given id
  and leaves every other sequence and, for an id that is not active, the active id as they
  were. The program breaks this for the active id: with A, B, C stored and B active,
  deleting B re-points the active id to A, the change of the active id runs the load effect
  again before the save effect has written, and the page settles with all of A, B, C in the
  collection and in the store.
\<close>

theorem delete_active_undone:
  "activeSequence pageABC = Some ''b'' \<and>
   sequences (snd (deleteSequence ''b'' pageABC)) = [seqA, seqC] \<and>
   sequences (settle (rendered pageABC (snd (deleteSequence ''b'' pageABC)))) = [seqA, seqB, seqC] \<and>
   sequences (settle (rendered pageABC (snd (deleteSequence ''b'' pageABC))))
     \<noteq> filter (\<lambda>sq. seq_id sq \<noteq> ''b'') (sequences pageABC) \<and>
   localStorage (settle (rendered pageABC (snd (deleteSequence ''b'' pageABC)))) ''drone-sequences''
     = Some [seqA, seqB, seqC] \<and>
   activeSequence (settle (rendered pageABC (snd (deleteSequence ''b'' pageABC)))) = Some ''a''"
  by (simp add: settle.simps commit_def rendered_def loadEffect_def saveEffect_def
      deleteSequence_def pageABC_def seqA_def seqB_def seqC_def falsy_def Let_def)

section \<open>Persisting the collection\<close>

text \<open>
  Claim C3 says that after every mutation the whole collection is written to the store,
  also after a deletion that leaves it empty. The program breaks this when the only
  sequence is deleted: the render after the deletion has the empty collection, its save
  effect writes nothing, and the store keeps the deleted sequence, in that commit and when
  the page has settled; the load effect then restores the collection from that blob.
\<close>

theorem empty_collection_not_persisted:
  "sequences (page (rendered pageA (snd (deleteSequence ''a'' pageA)))) = [] \<and>
   sequencesChanged (rendered pageA (snd (deleteSequence ''a'' pageA))) \<and>
   localStorage (saveEffect (page (rendered pageA (snd (deleteSequence ''a'' pageA)))))
     ''drone-sequences'' = Some [seqA] \<and>
   localStorage (page (commit (rendered pageA (snd (deleteSequence ''a'' pageA)))))
     ''drone-sequences'' = Some [seqA] \<and>
   sequences (settle (rendered pageA (snd (deleteSequence ''a'' pageA)))) = [seqA] \<and>
   localStorage (settle (rendered pageA (snd (deleteSequence ''a'' pageA))))
     ''drone-sequences'' = Some [seqA]"
  by (simp add: settle.simps commit_def rendered_def loadEffect_def saveEffect_def
      deleteSequence_def pageA_def seqA_def falsy_def Let_def)

section \<open>The draft\<close>

text \<open>
  Claim C5. Saving a draft without waypoints is rejected with the destructive toast
  \<open>No Points to Save\<close> and changes nothing: the page (collection, active id, preview,
  store) and the canvas (points, name, unsaved flag) are returned as they were.
\<close>

theorem saveSequence_empty_rejected:
  assumes "unsavedPoints c = []"
  shows "saveSequence now (a, c) = (NoPointsToSave, a, c) \<and> destructive NoPointsToSave"
  using assms by (simp add: saveSequence_def)

theorem saveSequence_empty_rejected_witness:
  "unsavedPoints canvas0 = [] \<and> saveSequence 5000 (pageABC, canvas0) = (NoPointsToSave, pageABC, canvas0)"
  using saveSequence_empty_rejected [of canvas0 5000 pageABC]
  by (simp add: canvas0_def)

text \<open>
  Claim C2, as stated, fails: with a one-point preview loaded into the draft, a click
  leaves the preview's point in the draft.
\<close>

theorem click_discards_preview_counterexample:
  "previewSequence (fst (previewEffect (handlePreviewSequence previewP page0, canvas0))) = Some previewP \<and>
   unsavedPoints (snd (previewEffect (handlePreviewSequence previewP page0, canvas0))) = points previewP \<and>
   pointP \<in> set (points previewP) \<and>
   pointP \<in> set (unsavedPoints (snd (previewEffect (handleCanvasClick click1 False 5000
       (previewEffect (handlePreviewSequence previewP page0, canvas0))))))"
  by (simp add: previewEffect_def handlePreviewSequence_def handleCanvasClick_def clearPreview_def
      page0_def canvas0_def previewP_def)

text \<open>
  Claim C2, amended. When a preview is loaded into the draft and the operator clicks, the
  preview marker of the page is cleared, and the draft keeps the preview's waypoints: it is
  the preview's points followed by the clicked waypoint, marked unsaved, under the same
  name; the collection is not touched.
\<close>

theorem click_keeps_preview_points:
  assumes "previewSequence a = Some pv" and "unsavedPoints c = points pv"
  shows "previewSequence (fst (previewEffect (handleCanvasClick e isFrontView now (a, c)))) = None \<and>
         unsavedPoints (snd (previewEffect (handleCanvasClick e isFrontView now (a, c)))) =
           points pv @ [newPoint isFrontView (clickXY e) (currentAltitude c)
                          (currentDrawingColor a) (currentDrawingRgb a) now] \<and>
         hasUnsavedChanges (snd (previewEffect (handleCanvasClick e isFrontView now (a, c)))) \<and>
         sequenceName (snd (previewEffect (handleCanvasClick e isFrontView now (a, c)))) = sequenceName c \<and>
         sequences (fst (previewEffect (handleCanvasClick e isFrontView now (a, c)))) = sequences a \<and>
         activeSequence (fst (previewEffect (handleCanvasClick e isFrontView now (a, c)))) =
           activeSequence a"
  using assms
  by (simp add: previewEffect_def handleCanvasClick_def clearPreview_def)

theorem click_keeps_preview_points_witness:
  "previewSequence (handlePreviewSequence previewP page0) = Some previewP \<and>
   unsavedPoints (canvas0\<lparr>unsavedPoints := [pointP]\<rparr>) = points previewP \<and>
   length (unsavedPoints (snd (previewEffect (handleCanvasClick click1 False 5000
       (handlePreviewSequence previewP page0, canvas0\<lparr>unsavedPoints := [pointP]\<rparr>))))) = 2"
  using click_keeps_preview_points [of "handlePreviewSequence previewP page0" previewP
      "canvas0\<lparr>unsavedPoints := [pointP]\<rparr>" click1 False 5000]
  by (simp add: handlePreviewSequence_def page0_def canvas0_def previewP_def)

section \<open>Canvas mappings\<close>

lemma clickXY_click1: "clickXY click1 = (Fin 100, Fin 50)"
  by (simp add: clickXY_def click1_def Let_def)

text \<open>
  Claim C9. For a click at canvas coordinates \<open>(px, py)\<close> within the 400 by 300 canvas:
  the waypoint added on the top-down canvas is drawn there at \<open>(px, py)\<close>; the waypoint
  added on the front canvas has \<open>x = px\<close> and \<open>z = (300 - py) / 3\<close> and is drawn there at
  \<open>(px, py)\<close>. The arithmetic is exact, so the rounding of the number format is the only
  deviation the program can show.
\<close>

theorem canvas_round_trip:
  assumes "clickXY e = (Fin px, Fin py)" and "0 \<le> px" and "px \<le> 400" and "0 \<le> py" and "py \<le> 300"
  shows "last (drawWaypoints True (unsavedPoints (snd (handleCanvasClick e False now (a, c)))) False)
           = (Fin px, Fin py) \<and>
         x (last (unsavedPoints (snd (handleCanvasClick e True now (a, c))))) = Fin px \<and>
         z (last (unsavedPoints (snd (handleCanvasClick e True now (a, c))))) = Fin ((300 - py) / 3) \<and>
         last (drawWaypoints True (unsavedPoints (snd (handleCanvasClick e True now (a, c)))) True)
           = (Fin px, Fin py)"
  using assms
  by (simp add: handleCanvasClick_def newPoint_def drawWaypoints_def waypointXY_def
      canvasHeight_def jsub_def diff_divide_distrib)

theorem canvas_round_trip_witness:
  "clickXY click1 = (Fin 100, Fin 50) \<and> (0::real) \<le> 100 \<and> (100::real) \<le> 400 \<and>
   (0::real) \<le> 50 \<and> (50::real) \<le> 300 \<and>
   drawWaypoints True (unsavedPoints (snd (handleCanvasClick click1 True 5000 (page0, canvas0)))) True
     = [(Fin 100, Fin 50)]"
  using canvas_round_trip [of click1 100 50 5000 page0 canvas0] clickXY_click1
  by (simp add: canvas0_def drawWaypoints_def handleCanvasClick_def)

section \<open>Path rendering\<close>

lemma isFinitePoint_rawPt: "isFinitePoint (rawPt p) = finiteCoords p"
  by (cases "x p"; cases "y p"; cases "z p")
     (simp_all add: isFinitePoint_def rawPt_def finiteCoords_def jsub_def)

lemma rawPt_filter:
  "filter isFinitePoint (map rawPt ps) = map rawPt (filter finiteCoords ps)"
  by (induction ps) (simp_all add: isFinitePoint_rawPt)

lemma isFinitePoint_Fin: "isFinitePoint q \<Longrightarrow> \<exists>a c d. q = (Fin a, Fin c, Fin d)"
  by (cases q) (auto simp add: isFinitePoint_def elim!: Number_isFinite.elims)

lemma map_fst_enumerate_markers:
  "map (fst \<circ> (\<lambda>(idx, pt). (pt, f idx))) (enumerate n qs) = qs"
  by (induction qs arbitrary: n) simp_all

text \<open>
  Claim C7. \<open>FlightPath\<close> draws nothing when fewer than two waypoints have finite
  coordinates. When it draws, the line and the markers run through the display points of
  exactly the waypoints with finite coordinates, in their order, so every drawn point is
  the finite display point of a waypoint and no other position stands in for a dropped one.
  A waypoint's display point is finite exactly when its own three coordinates are.
\<close>

theorem FlightPath_finite_only:
  "(length (filter finiteCoords (points sq)) < 2 \<longrightarrow> FlightPath sq isActive = None) \<and>
   (\<forall>v. FlightPath sq isActive = Some v \<longrightarrow>
      line_points v = map rawPt (filter finiteCoords (points sq)) \<and>
      map fst (markers v) = line_points v \<and>
      2 \<le> length (line_points v) \<and>
      (\<forall>q \<in> set (line_points v). \<exists>a c d. q = (Fin a, Fin c, Fin d))) \<and>
   (\<forall>p. isFinitePoint (rawPt p) = finiteCoords p)"
proof -
  let ?pts = "filter isFinitePoint (map rawPt (points sq))"
  have len: "length ?pts = length (filter finiteCoords (points sq))"
    by (simp add: rawPt_filter)
  have none: "length (filter finiteCoords (points sq)) < 2 \<longrightarrow> FlightPath sq isActive = None"
    using len by (simp add: FlightPath_def Let_def)
  have fin: "\<forall>q \<in> set ?pts. \<exists>a c d. q = (Fin a, Fin c, Fin d)"
    using isFinitePoint_Fin by auto
  have some: "FlightPath sq isActive = Some v \<longrightarrow>
      line_points v = map rawPt (filter finiteCoords (points sq)) \<and>
      map fst (markers v) = line_points v \<and>
      2 \<le> length (line_points v) \<and>
      (\<forall>q \<in> set (line_points v). \<exists>a c d. q = (Fin a, Fin c, Fin d))" for v
  proof
    assume drawn: "FlightPath sq isActive = Some v"
    then have lp: "line_points v = ?pts" and mk: "map fst (markers v) = ?pts"
      and ge: "2 \<le> length ?pts"
      by (auto simp add: FlightPath_def Let_def map_fst_enumerate_markers split: if_splits)
    show "line_points v = map rawPt (filter finiteCoords (points sq)) \<and>
      map fst (markers v) = line_points v \<and>
      2 \<le> length (line_points v) \<and>
      (\<forall>q \<in> set (line_points v). \<exists>a c d. q = (Fin a, Fin c, Fin d))"
      using lp mk ge fin by (simp add: rawPt_filter)
  qed
  show ?thesis using none some isFinitePoint_rawPt by blast
qed

theorem FlightPath_finite_only_witness:
  "FlightPath seqNaN True =
     Some \<lparr>line_points = [(Fin (- 10), Fin 1, Fin 0), (Fin 10, Fin 1, Fin 0)],
           line_color = ''#3b82f6'',
           markers = [((Fin (- 10), Fin 1, Fin 0), Css ''#ff0000''),
                      ((Fin 10, Fin 1, Fin 0), Css ''#ff0000'')]\<rparr> \<and>
   length (filter finiteCoords (points (seqNaN\<lparr>points := take 2 (points seqNaN)\<rparr>))) < 2 \<and>
   FlightPath (seqNaN\<lparr>points := take 2 (points seqNaN)\<rparr>) True = None"
  using FlightPath_finite_only [of seqNaN True]
    FlightPath_finite_only [of "seqNaN\<lparr>points := take 2 (points seqNaN)\<rparr>" True]
  by (simp add: seqNaN_def wp_def FlightPath_def rawPt_def isFinitePoint_def jsub_def Let_def
      finiteCoords_def)

section \<open>Playback position\<close>

text \<open>
  Claim C1, as stated, fails. For three waypoints with timestamps 0, 1000, 2000 and
  duration 3000, the position at time 1500 is that of waypoint 1, not the midpoint of
  waypoints 1 and 2, whichever of the two world mappings the midpoint is taken in; and the
  position at time 0 is waypoint 0's display point raised by 2, not the display point.
\<close>

theorem interpolator_midpoint_counterexample:
  "map timestamp (points seq3) = [0, 1000, 2000] \<and> duration seq3 = 3000 \<and>
   getCurrentPosition (Some seq3) (Fin 1500) = Inr (Fin 0, Fin 3, Fin 0) \<and>
   midpoint (dronePos (points seq3 ! 1)) (dronePos (points seq3 ! 2)) = (Fin 5, Fin 3, Fin 0) \<and>
   midpoint (rawPt (points seq3 ! 1)) (rawPt (points seq3 ! 2)) = (Fin 5, Fin 1, Fin 0) \<and>
   getCurrentPosition (Some seq3) (Fin 1500)
     \<noteq> Inr (midpoint (dronePos (points seq3 ! 1)) (dronePos (points seq3 ! 2))) \<and>
   getCurrentPosition (Some seq3) (Fin 1500)
     \<noteq> Inr (midpoint (rawPt (points seq3 ! 1)) (rawPt (points seq3 ! 2))) \<and>
   getCurrentPosition (Some seq3) (Fin 0) \<noteq> Inr (rawPt (points seq3 ! 0))"
  by (simp add: seq3_def wp_def getCurrentPosition_def Let_def jsRem_def lerp_def jsub_def
      midpoint_def dronePos_def rawPt_def)

text \<open>
  Claim C1, amended. For every sequence of three waypoints with finite coordinates and
  duration 3000, whatever their timestamps, \<open>getCurrentPosition\<close> returns the drone
  position of waypoint 0 at time 0, that of waypoint 1 at time 1500, the midpoint of the
  drone positions of waypoints 1 and 2 at time 2250, and that of waypoint 0 again at time
  3000. The drone position of a waypoint is \<open>((x - 200) / 20, z / 10 + 2, (y - 150) / 20)\<close>.
\<close>

theorem interpolator_boundary:
  assumes "points sq = [p0, p1, p2]" and "duration sq = 3000"
    and "finiteCoords p0" and "finiteCoords p1" and "finiteCoords p2"
  shows "getCurrentPosition (Some sq) (Fin 0) = Inr (dronePos p0) \<and>
         getCurrentPosition (Some sq) (Fin 1500) = Inr (dronePos p1) \<and>
         getCurrentPosition (Some sq) (Fin 2250) = Inr (midpoint (dronePos p1) (dronePos p2)) \<and>
         getCurrentPosition (Some sq) (Fin 3000) = Inr (dronePos p0)"
proof -
  obtain a0 c0 d0 where p0: "x p0 = Fin a0" "y p0 = Fin c0" "z p0 = Fin d0"
    using assms(3) by (auto simp add: finiteCoords_def elim!: Number_isFinite.elims)
  obtain a1 c1 d1 where p1: "x p1 = Fin a1" "y p1 = Fin c1" "z p1 = Fin d1"
    using assms(4) by (auto simp add: finiteCoords_def elim!: Number_isFinite.elims)
  obtain a2 c2 d2 where p2: "x p2 = Fin a2" "y p2 = Fin c2" "z p2 = Fin d2"
    using assms(5) by (auto simp add: finiteCoords_def elim!: Number_isFinite.elims)
  have t0: "getCurrentPosition (Some sq) (Fin 0) = Inr (dronePos p0)"
    by (simp add: getCurrentPosition_def assms(1,2) Let_def jsRem_def lerp_def jsub_def
        dronePos_def p0 p1)
  have t1: "getCurrentPosition (Some sq) (Fin 1500) = Inr (dronePos p1)"
    by (simp add: getCurrentPosition_def assms(1,2) Let_def jsRem_def lerp_def jsub_def
        dronePos_def p1 p2)
  have t2: "getCurrentPosition (Some sq) (Fin 2250) = Inr (midpoint (dronePos p1) (dronePos p2))"
    by (simp add: getCurrentPosition_def assms(1,2) Let_def jsRem_def lerp_def jsub_def
        dronePos_def midpoint_def p1 p2 field_simps)
  have t3: "getCurrentPosition (Some sq) (Fin 3000) = Inr (dronePos p0)"
    by (simp add: getCurrentPosition_def assms(1,2) Let_def jsRem_def lerp_def jsub_def
        dronePos_def p0 p1)
  from t0 t1 t2 t3 show ?thesis by simp
qed

theorem interpolator_boundary_witness:
  "points seq3 = [wp 0 150 10 0, wp 200 150 10 1000, wp 400 150 10 2000] \<and>
   duration seq3 = 3000 \<and>
   finiteCoords (wp 0 150 10 0) \<and> finiteCoords (wp 200 150 10 1000) \<and>
   finiteCoords (wp 400 150 10 2000) \<and>
   getCurrentPosition (Some seq3) (Fin 0) = Inr (Fin (- 10), Fin 3, Fin 0) \<and>
   getCurrentPosition (Some seq3) (Fin 1500) = Inr (Fin 0, Fin 3, Fin 0) \<and>
   getCurrentPosition (Some seq3) (Fin 2250) = Inr (Fin 5, Fin 3, Fin 0) \<and>
   getCurrentPosition (Some seq3) (Fin 3000) = Inr (Fin (- 10), Fin 3, Fin 0)"
  using interpolator_boundary [of seq3 "wp 0 150 10 0" "wp 200 150 10 1000" "wp 400 150 10 2000"]
  by (simp add: seq3_def wp_def finiteCoords_def dronePos_def midpoint_def jsub_def)

section \<open>Durations\<close>

lemma Max_timestamps_le:
  "ps \<noteq> [] \<Longrightarrow> (Max (timestamp ` set ps) \<le> d) = (\<forall>p \<in> set ps. timestamp p \<le> d)"
  by (simp add: Max_le_iff)

lemma fold_max_ge: "(m::int) \<le> fold max ts m"
  by (induction ts arbitrary: m) (auto intro: order_trans [OF max.cobounded2])

lemma fold_max_upper: "\<forall>t \<in> set ts. (t::int) \<le> fold max ts m"
proof (induction ts arbitrary: m)
  case Nil
  then show ?case by simp
next
  case (Cons a ts)
  have "a \<le> fold max ts (max a m)"
    using fold_max_ge [of "max a m" ts] by simp
  with Cons show ?case by simp
qed

lemma circle_duration: "durationInvariant (generateCirclePattern fs ls now clock)"
proof -
  have ne: "points (generateCirclePattern fs ls now clock) \<noteq> []"
    by (simp add: generateCirclePattern_def Let_def upt_rec)
  have "\<forall>p \<in> set (points (generateCirclePattern fs ls now clock)).
          timestamp p \<le> duration (generateCirclePattern fs ls now clock)"
    by (auto simp add: generateCirclePattern_def Let_def)
  with ne show ?thesis
    by (simp add: durationInvariant_def Max_timestamps_le)
qed

lemma figure8_duration: "durationInvariant (generateFigure8Pattern fs ls now clock)"
proof -
  have ne: "points (generateFigure8Pattern fs ls now clock) \<noteq> []"
    by (simp add: generateFigure8Pattern_def Let_def upt_rec)
  have "\<forall>p \<in> set (points (generateFigure8Pattern fs ls now clock)).
          timestamp p \<le> duration (generateFigure8Pattern fs ls now clock)"
    by (auto simp add: generateFigure8Pattern_def Let_def)
  with ne show ?thesis
    by (simp add: durationInvariant_def Max_timestamps_le)
qed

lemma spiral_duration: "durationInvariant (generateSpiralPattern fs ls now clock)"
proof -
  have ne: "points (generateSpiralPattern fs ls now clock) \<noteq> []"
    by (simp add: generateSpiralPattern_def Let_def upt_rec)
  have "\<forall>p \<in> set (points (generateSpiralPattern fs ls now clock)).
          timestamp p \<le> duration (generateSpiralPattern fs ls now clock)"
    by (auto simp add: generateSpiralPattern_def Let_def)
  with ne show ?thesis
    by (simp add: durationInvariant_def Max_timestamps_le)
qed

lemma formation_timestamps:
  "map timestamp (points (generateFormationPattern fs ls now clock)) =
     [0, 200, 400, 600, 4000, 4200, 4400, 4600, 8000, 8200, 8400, 8600]"
  by (simp add: generateFormationPattern_def formations_def Let_def)

lemma formation_duration: "durationInvariant (generateFormationPattern fs ls now clock)"
proof -
  have ne: "points (generateFormationPattern fs ls now clock) \<noteq> []"
    using formation_timestamps [of fs ls now clock] by auto
  have "timestamp ` set (points (generateFormationPattern fs ls now clock)) =
          set [0, 200, 400, 600, 4000, 4200, 4400, 4600, 8000, 8200, 8400, 8600]"
    using formation_timestamps [of fs ls now clock] by (metis set_map)
  moreover have "duration (generateFormationPattern fs ls now clock) = 14000"
    by (simp add: generateFormationPattern_def Let_def)
  ultimately show ?thesis using ne
    by (simp add: durationInvariant_def)
qed

lemma newSequence_duration: "durationInvariant (newSequence sequence nm ps now)"
proof (cases ps)
  case Nil
  then show ?thesis by (simp add: durationInvariant_def newSequence_def)
next
  case (Cons p rest)
  have "\<forall>t \<in> set (timestamp p # map timestamp rest).
          t \<le> fold max (map timestamp rest) (timestamp p) + 1000"
    using fold_max_upper [of "map timestamp rest" "timestamp p"]
      fold_max_ge [of "timestamp p" "map timestamp rest"]
    by auto
  then have "\<forall>q \<in> set ps. timestamp q \<le> duration (newSequence sequence nm ps now)"
    using Cons by (simp add: newSequence_def)
  moreover have "points (newSequence sequence nm ps now) = ps"
    by (simp add: newSequence_def)
  ultimately show ?thesis using Cons
    by (simp add: durationInvariant_def Max_timestamps_le)
qed

lemma spread_whole: "spread sq (whole n) = n"
  by (simp add: spread_def whole_def)

text \<open>What \<open>saveSequence\<close> commits from a draft with points is the sequence built by
  \<open>newSequence\<close>: appended when no sequence is active, in place of the active one otherwise.\<close>

lemma saveSequence_commits_newSequence:
  assumes "unsavedPoints c \<noteq> []"
  shows "sequences (fst (snd (saveSequence now (a, c)))) =
           (case activeSeq a of
              None \<Rightarrow> sequences a @ [newSequence None (sequenceName c) (unsavedPoints c) now]
            | Some s \<Rightarrow>
                map (\<lambda>sq. if Some (seq_id sq) = activeSequence a \<and> seq_id sq \<noteq> []
                          then newSequence (Some s) (sequenceName c) (unsavedPoints c) now else sq)
                    (sequences a))"
  using assms
  by (auto simp add: saveSequence_def Let_def clearPreview_def addSequence_def onSequenceUpdate_def
      updateSequence_def spread_whole split: option.splits)

text \<open>
  Claim C4. The sequence of each of the four pattern generators, and the sequence that
  saving builds from a draft, satisfies the duration invariant: the duration is at least the
  largest timestamp of its points when it has points, and 0 when it has none.
\<close>

theorem duration_invariant:
  "durationInvariant (generateCirclePattern fs ls now clock) \<and>
   durationInvariant (generateFigure8Pattern fs ls now clock) \<and>
   durationInvariant (generateSpiralPattern fs ls now clock) \<and>
   durationInvariant (generateFormationPattern fs ls now clock) \<and>
   durationInvariant (newSequence sequence nm ps now)"
  using circle_duration figure8_duration spiral_duration formation_duration newSequence_duration
  by simp

theorem duration_invariant_witness:
  "points (newSequence None ''S'' (points seq3) 5000) \<noteq> [] \<and>
   Max (timestamp ` set (points (newSequence None ''S'' (points seq3) 5000))) = 2000 \<and>
   duration (newSequence None ''S'' (points seq3) 5000) = 3000 \<and>
   points (generateFormationPattern flight0 led0 5000 ''12:00:00'') \<noteq> [] \<and>
   Max (timestamp ` set (points (generateFormationPattern flight0 led0 5000 ''12:00:00'')))
     \<le> duration (generateFormationPattern flight0 led0 5000 ''12:00:00'')"
proof -
  have ne: "points (generateFormationPattern flight0 led0 5000 ''12:00:00'') \<noteq> []"
    using formation_timestamps [of flight0 led0 5000 "''12:00:00''"] by auto
  have formation: "durationInvariant (generateFormationPattern flight0 led0 5000 ''12:00:00'')"
    using duration_invariant [of flight0 led0 5000 "''12:00:00''" None "''S''" "points seq3"]
    by simp
  have saved: "points (newSequence None ''S'' (points seq3) 5000) \<noteq> [] \<and>
      Max (timestamp ` set (points (newSequence None ''S'' (points seq3) 5000))) = 2000 \<and>
      duration (newSequence None ''S'' (points seq3) 5000) = 3000"
    by (simp add: newSequence_def seq3_def wp_def)
  from ne formation saved show ?thesis
    unfolding durationInvariant_def by blast
qed

end
